theory Spec2Isabelle
  imports Main "HOL-Library.Word"
begin

unbundle bit_operations_syntax

section \<open>Python values\<close>

text \<open>
  The client is Python: the values it moves around are the ones \<open>response.json()\<close>
  produces. \<open>JNull\<close> is \<open>None\<close>, \<open>JObj\<close> is a \<open>dict\<close> with string keys (an
  association list, looked up with \<open>map_of\<close>), \<open>JArr\<close> a \<open>list\<close>. A float is kept
  as sign, mantissa and exponent, or as one of the special values; only its truth value
  matters here.
\<close>

type_synonym byte = "8 word"
type_synonym bytes = "byte list"

datatype pyfloat = PyFinite bool nat int | PyInf bool | PyNaN

datatype json =
    JNull
  | JBool bool
  | JInt int
  | JFloat pyfloat
  | JStr string
  | JArr "json list"
  | JObj "(string \<times> json) list"

text \<open>Python's truth value of an object, as \<open>if x:\<close> and \<open>not x\<close> test it.\<close>

fun truthy :: "json \<Rightarrow> bool" where
  "truthy JNull = False"
| "truthy (JBool b) = b"
| "truthy (JInt i) = (i \<noteq> 0)"
| "truthy (JFloat (PyFinite s m e)) = (m \<noteq> 0)"
| "truthy (JFloat (PyInf s)) = True"
| "truthy (JFloat PyNaN) = True"
| "truthy (JStr s) = (s \<noteq> [])"
| "truthy (JArr xs) = (xs \<noteq> [])"
| "truthy (JObj kvs) = (kvs \<noteq> [])"

text \<open>Truth value of an optional string argument (\<open>str | None\<close>).\<close>

fun truthy_opt :: "string option \<Rightarrow> bool" where
  "truthy_opt None = False"
| "truthy_opt (Some s) = (s \<noteq> [])"

text \<open>
  Exceptions are values. The message of an f-string is kept as its pieces, a literal or
  the value that is formatted in, so that no rendering of a \<open>dict\<close> has to be modelled.
\<close>

datatype fpiece = Lit string | Fmt json

datatype py_exn =
    PyException "fpiece list"
  | ValueError "fpiece list"
  | KeyError string
  | TypeError
  | AttributeError
  | HTTPError int
  | RequestException string

text \<open>\<open>d[k]\<close>: a missing key raises \<open>KeyError\<close>, a value that is no \<open>dict\<close> raises
  \<open>TypeError\<close> for a string subscript.\<close>

fun py_getitem :: "json \<Rightarrow> string \<Rightarrow> py_exn + json" where
  "py_getitem (JObj kvs) k = (case map_of kvs k of None \<Rightarrow> Inl (KeyError k) | Some v \<Rightarrow> Inr v)"
| "py_getitem _ k = Inl TypeError"

text \<open>\<open>d.get(k, default)\<close>: only a \<open>dict\<close> has the method.\<close>

fun py_get :: "json \<Rightarrow> string \<Rightarrow> json \<Rightarrow> py_exn + json" where
  "py_get (JObj kvs) k d = (case map_of kvs k of None \<Rightarrow> Inr d | Some v \<Rightarrow> Inr v)"
| "py_get _ k d = Inl AttributeError"

section \<open>SHA-256 (\<open>hashlib.sha256(...).hexdigest()\<close>)\<close>

type_synonym w32 = "32 word"

definition rotr :: "nat \<Rightarrow> w32 \<Rightarrow> w32" where
  "rotr n x = drop_bit n x OR push_bit (32 - n) x"

definition Ch :: "w32 \<Rightarrow> w32 \<Rightarrow> w32 \<Rightarrow> w32" where
  "Ch x y z = (x AND y) XOR (NOT x AND z)"

definition Maj :: "w32 \<Rightarrow> w32 \<Rightarrow> w32 \<Rightarrow> w32" where
  "Maj x y z = (x AND y) XOR (x AND z) XOR (y AND z)"

definition Sigma0 :: "w32 \<Rightarrow> w32" where
  "Sigma0 x = rotr 2 x XOR rotr 13 x XOR rotr 22 x"

definition Sigma1 :: "w32 \<Rightarrow> w32" where
  "Sigma1 x = rotr 6 x XOR rotr 11 x XOR rotr 25 x"

definition sigma0 :: "w32 \<Rightarrow> w32" where
  "sigma0 x = rotr 7 x XOR rotr 18 x XOR drop_bit 3 x"

definition sigma1 :: "w32 \<Rightarrow> w32" where
  "sigma1 x = rotr 17 x XOR rotr 19 x XOR drop_bit 10 x"

text \<open>A 32-bit constant, written as its high and low halves.\<close>

definition hl :: "w32 \<Rightarrow> w32 \<Rightarrow> w32" where
  "hl hi lo = push_bit 16 hi OR lo"

definition sha256_K :: "w32 list" where
  "sha256_K =
    [hl 0x428a 0x2f98, hl 0x7137 0x4491, hl 0xb5c0 0xfbcf, hl 0xe9b5 0xdba5,
     hl 0x3956 0xc25b, hl 0x59f1 0x11f1, hl 0x923f 0x82a4, hl 0xab1c 0x5ed5,
     hl 0xd807 0xaa98, hl 0x1283 0x5b01, hl 0x2431 0x85be, hl 0x550c 0x7dc3,
     hl 0x72be 0x5d74, hl 0x80de 0xb1fe, hl 0x9bdc 0x06a7, hl 0xc19b 0xf174,
     hl 0xe49b 0x69c1, hl 0xefbe 0x4786, hl 0x0fc1 0x9dc6, hl 0x240c 0xa1cc,
     hl 0x2de9 0x2c6f, hl 0x4a74 0x84aa, hl 0x5cb0 0xa9dc, hl 0x76f9 0x88da,
     hl 0x983e 0x5152, hl 0xa831 0xc66d, hl 0xb003 0x27c8, hl 0xbf59 0x7fc7,
     hl 0xc6e0 0x0bf3, hl 0xd5a7 0x9147, hl 0x06ca 0x6351, hl 0x1429 0x2967,
     hl 0x27b7 0x0a85, hl 0x2e1b 0x2138, hl 0x4d2c 0x6dfc, hl 0x5338 0x0d13,
     hl 0x650a 0x7354, hl 0x766a 0x0abb, hl 0x81c2 0xc92e, hl 0x9272 0x2c85,
     hl 0xa2bf 0xe8a1, hl 0xa81a 0x664b, hl 0xc24b 0x8b70, hl 0xc76c 0x51a3,
     hl 0xd192 0xe819, hl 0xd699 0x0624, hl 0xf40e 0x3585, hl 0x106a 0xa070,
     hl 0x19a4 0xc116, hl 0x1e37 0x6c08, hl 0x2748 0x774c, hl 0x34b0 0xbcb5,
     hl 0x391c 0x0cb3, hl 0x4ed8 0xaa4a, hl 0x5b9c 0xca4f, hl 0x682e 0x6ff3,
     hl 0x748f 0x82ee, hl 0x78a5 0x636f, hl 0x84c8 0x7814, hl 0x8cc7 0x0208,
     hl 0x90be 0xfffa, hl 0xa450 0x6ceb, hl 0xbef9 0xa3f7, hl 0xc671 0x78f2]"

type_synonym sha_state = "w32 \<times> w32 \<times> w32 \<times> w32 \<times> w32 \<times> w32 \<times> w32 \<times> w32"

definition sha256_H0 :: sha_state where
  "sha256_H0 =
    (hl 0x6a09 0xe667, hl 0xbb67 0xae85, hl 0x3c6e 0xf372, hl 0xa54f 0xf53a,
     hl 0x510e 0x527f, hl 0x9b05 0x688c, hl 0x1f83 0xd9ab, hl 0x5be0 0xcd19)"

text \<open>Padding: the byte \<open>0x80\<close>, zeros up to 56 modulo 64, the bit length on 8 bytes.\<close>

definition pad_message :: "bytes \<Rightarrow> bytes" where
  "pad_message m =
     (let l = length m;
          k = (119 - l mod 64) mod 64;
          bits = (word_of_nat (8 * l) :: 64 word)
      in m @ [0x80] @ replicate k 0 @
         map (\<lambda>i. ucast (drop_bit (8 * i) bits)) [7, 6, 5, 4, 3, 2, 1, 0])"

fun be_words :: "bytes \<Rightarrow> w32 list" where
  "be_words (a # b # c # d # rest) =
     (push_bit 24 (ucast a) OR push_bit 16 (ucast b) OR push_bit 8 (ucast c) OR ucast d)
       # be_words rest"
| "be_words _ = []"

fun chunks :: "nat \<Rightarrow> 'a list \<Rightarrow> 'a list list" where
  "chunks n [] = []"
| "chunks n xs = (if n = 0 then [xs] else take n xs # chunks n (drop n xs))"

fun extend_schedule :: "nat \<Rightarrow> w32 list \<Rightarrow> w32 list" where
  "extend_schedule 0 ws = ws"
| "extend_schedule (Suc n) ws =
     (let t = length ws
      in extend_schedule n
           (ws @ [sigma1 (ws ! (t - 2)) + ws ! (t - 7) + sigma0 (ws ! (t - 15)) + ws ! (t - 16)]))"

definition sha_round :: "sha_state \<Rightarrow> w32 \<times> w32 \<Rightarrow> sha_state" where
  "sha_round s kw =
     (case s of (a, b, c, d, e, f, g, h) \<Rightarrow>
        let T1 = h + Sigma1 e + Ch e f g + fst kw + snd kw;
            T2 = Sigma0 a + Maj a b c
        in (T1 + T2, a, b, c, d + T1, e, f, g))"

definition compress :: "sha_state \<Rightarrow> bytes \<Rightarrow> sha_state" where
  "compress s block =
     (case s of (a, b, c, d, e, f, g, h) \<Rightarrow>
        case foldl sha_round s (zip sha256_K (extend_schedule 48 (be_words block))) of
          (a', b', c', d', e', f', g', h') \<Rightarrow>
            (a + a', b + b', c + c', d + d', e + e', f + f', g + g', h + h'))"

definition hex_digit :: "nat \<Rightarrow> char" where
  "hex_digit n = ''0123456789abcdef'' ! (n mod 16)"

definition hex_word :: "w32 \<Rightarrow> string" where
  "hex_word w = map (\<lambda>i. hex_digit (unat (drop_bit (4 * i) w AND 15))) [7, 6, 5, 4, 3, 2, 1, 0]"

definition sha256_hexdigest :: "bytes \<Rightarrow> string" where
  "sha256_hexdigest m =
     (case foldl compress sha256_H0 (chunks 64 (pad_message m)) of
        (a, b, c, d, e, f, g, h) \<Rightarrow> concat (map hex_word [a, b, c, d, e, f, g, h]))"

section \<open>The transport: requests, responses, the network\<close>

text \<open>
  A request is what the code hands to the \<open>requests\<close> library. \<open>rq_session\<close> holds the
  headers of the \<open>Session\<close> object the call goes through, and is \<open>None\<close> for the
  module-level \<open>requests.put\<close> and \<open>requests.get\<close>, which use no session of the
  client. \<open>rq_headers\<close> is the \<open>headers=\<close> argument of the call. The URL is a Python
  value: the upload and download URLs are read from a decoded body.

  A response is what the code reads from a \<open>requests.Response\<close>: \<open>rs_json\<close> is the
  result of \<open>response.json()\<close>, \<open>None\<close> when it raises \<open>JSONDecodeError\<close>.
\<close>

type_synonym headers = "(string \<times> string) list"

record http_request =
  rq_session :: "headers option"
  rq_method :: string
  rq_url :: json
  rq_params :: json
  rq_json :: json
  rq_data :: "bytes option"
  rq_headers :: "headers option"

record http_response =
  rs_status_code :: int
  rs_content :: bytes
  rs_text :: string
  rs_json :: "json option"

text \<open>
  What a run does is a list of events, oldest first: a digest computed, a request sent.
  The network answers a request from the events so far, with a response or with the
  exception that \<open>requests\<close> raises (connection refused, timeout, invalid URL).
\<close>

datatype event = Hashed bytes | Sent http_request

type_synonym network = "event list \<Rightarrow> http_request \<Rightarrow> py_exn + http_response"

definition send :: "network \<Rightarrow> http_request \<Rightarrow> event list \<Rightarrow> (py_exn + http_response) \<times> event list" where
  "send net rq log = (net log rq, log @ [Sent rq])"

definition hashlib_sha256_hexdigest :: "bytes \<Rightarrow> event list \<Rightarrow> string \<times> event list" where
  "hashlib_sha256_hexdigest content log = (sha256_hexdigest content, log @ [Hashed content])"

subsection \<open>Headers of a session (a case-insensitive dictionary)\<close>

definition lower_char :: "char \<Rightarrow> char" where
  "lower_char c =
     (let n = (of_char c :: nat) in if 65 \<le> n \<and> n \<le> 90 then char_of (n + 32) else c)"

definition lower :: "string \<Rightarrow> string" where
  "lower s = map lower_char s"

fun header_set :: "headers \<Rightarrow> string \<Rightarrow> string \<Rightarrow> headers" where
  "header_set [] k v = [(k, v)]"
| "header_set ((k', v') # hs) k v =
     (if lower k' = lower k then (k, v) # hs else (k', v') # header_set hs k v)"


definition headers_update :: "headers \<Rightarrow> headers \<Rightarrow> headers" where
  "headers_update hs new = foldl (\<lambda>acc (k, v). header_set acc k v) hs new"


section \<open>base.py\<close>

record ApiResponse =
  success :: json
  status_code :: int
  data :: json
  error :: json
  meta :: json
  raw :: json

definition from_response :: "http_response \<Rightarrow> py_exn + ApiResponse" where
  "from_response response =
     (let json_data =
            (case rs_json response of
               Some j \<Rightarrow> j
             | None \<Rightarrow>
                 JObj [(''success'', JBool False),
                       (''error'', JObj [(''message'', JStr (rs_text response))])])
      in case py_get json_data ''success'' (JBool False) of
           Inl e \<Rightarrow> Inl e
         | Inr s \<Rightarrow>
        (case py_get json_data ''data'' JNull of
           Inl e \<Rightarrow> Inl e
         | Inr d \<Rightarrow>
        (case py_get json_data ''error'' JNull of
           Inl e \<Rightarrow> Inl e
         | Inr er \<Rightarrow>
        (case py_get json_data ''meta'' JNull of
           Inl e \<Rightarrow> Inl e
         | Inr m \<Rightarrow>
             Inr \<lparr>success = s, status_code = rs_status_code response, data = d,
                  error = er, meta = m, raw = json_data\<rparr>))))"

record BaseClient =
  base_url :: string
  api_key :: string
  session_headers :: headers

definition rstrip :: "char \<Rightarrow> string \<Rightarrow> string" where
  "rstrip c s = rev (dropWhile (\<lambda>x. x = c) (rev s))"

text \<open>
  \<open>BaseClient.__init__\<close>. The first argument is the header set a fresh
  \<open>requests.Session()\<close> starts with (the library's defaults), which the constructor
  updates.
\<close>

definition BaseClient_init :: "headers \<Rightarrow> string \<Rightarrow> string \<Rightarrow> BaseClient" where
  "BaseClient_init default_headers base_url' api_key' =
     \<lparr>base_url = rstrip CHR ''/'' base_url',
      api_key = api_key',
      session_headers =
        headers_update default_headers
          [(''Authorization'', ''Bearer '' @ api_key'),
           (''Content-Type'', ''application/json'')]\<rparr>"

definition private_url :: "BaseClient \<Rightarrow> string \<Rightarrow> string" where
  "private_url self path = base_url self @ ''/v1'' @ path"

text \<open>
  \<open>get\<close>, \<open>post\<close>, \<open>patch\<close> and \<open>delete\<close> have one body: the call of the
  session's method of that name on \<open>self._url(path)\<close>, then \<open>ApiResponse.from_response\<close>.
  An exception of the session call is not caught.
\<close>

definition session_request ::
  "network \<Rightarrow> BaseClient \<Rightarrow> string \<Rightarrow> string \<Rightarrow> json \<Rightarrow> json \<Rightarrow> headers option \<Rightarrow> event list
     \<Rightarrow> (py_exn + ApiResponse) \<times> event list" where
  "session_request net self method path params body hdrs log =
     (case send net
             \<lparr>rq_session = Some (session_headers self), rq_method = method,
              rq_url = JStr (private_url self path), rq_params = params, rq_json = body,
              rq_data = None, rq_headers = hdrs\<rparr> log of
        (Inl e, log') \<Rightarrow> (Inl e, log')
      | (Inr response, log') \<Rightarrow> (from_response response, log'))"

definition get ::
  "network \<Rightarrow> BaseClient \<Rightarrow> string \<Rightarrow> json \<Rightarrow> headers option \<Rightarrow> event list
     \<Rightarrow> (py_exn + ApiResponse) \<times> event list" where
  "get net self path params hdrs log = session_request net self ''GET'' path params JNull hdrs log"

definition post ::
  "network \<Rightarrow> BaseClient \<Rightarrow> string \<Rightarrow> json \<Rightarrow> headers option \<Rightarrow> event list
     \<Rightarrow> (py_exn + ApiResponse) \<times> event list" where
  "post net self path body hdrs log = session_request net self ''POST'' path JNull body hdrs log"



definition put_binary ::
  "network \<Rightarrow> BaseClient \<Rightarrow> json \<Rightarrow> bytes \<Rightarrow> string \<Rightarrow> event list
     \<Rightarrow> (py_exn + http_response) \<times> event list" where
  "put_binary net self url content content_type log =
     send net
       \<lparr>rq_session = None, rq_method = ''PUT'', rq_url = url, rq_params = JNull,
        rq_json = JNull, rq_data = Some content,
        rq_headers = Some [(''Content-Type'', content_type)]\<rparr> log"

text \<open>\<open>Response.raise_for_status()\<close> raises \<open>HTTPError\<close> on a 4xx or 5xx status.\<close>

definition raise_for_status :: "http_response \<Rightarrow> py_exn + unit" where
  "raise_for_status response =
     (if 400 \<le> rs_status_code response \<and> rs_status_code response < 600
      then Inl (HTTPError (rs_status_code response)) else Inr ())"

definition download ::
  "network \<Rightarrow> BaseClient \<Rightarrow> json \<Rightarrow> event list \<Rightarrow> (py_exn + bytes) \<times> event list" where
  "download net self url log =
     (case send net
             \<lparr>rq_session = None, rq_method = ''GET'', rq_url = url, rq_params = JNull,
              rq_json = JNull, rq_data = None, rq_headers = None\<rparr> log of
        (Inl e, log') \<Rightarrow> (Inl e, log')
      | (Inr response, log') \<Rightarrow>
          (case raise_for_status response of
             Inl e \<Rightarrow> (Inl e, log')
           | Inr u \<Rightarrow> (Inr (rs_content response), log')))"

section \<open>admin.py\<close>

definition get_large_upload_url ::
  "network \<Rightarrow> BaseClient \<Rightarrow> string \<Rightarrow> string \<Rightarrow> string \<Rightarrow> int \<Rightarrow> string \<Rightarrow> event list
     \<Rightarrow> (py_exn + ApiResponse) \<times> event list" where
  "get_large_upload_url net self application_id version file_name file_size content_type log =
     (let payload =
            JObj [(''applicationId'', JStr application_id),
                  (''version'', JStr version),
                  (''fileName'', JStr file_name),
                  (''fileSize'', JInt file_size),
                  (''contentType'', JStr content_type)]
      in post net self ''/management/upload/large-url'' payload None log)"

definition complete_large_upload ::
  "network \<Rightarrow> BaseClient \<Rightarrow> json \<Rightarrow> string \<Rightarrow> string \<Rightarrow> string \<Rightarrow> int \<Rightarrow> string
     \<Rightarrow> string option \<Rightarrow> event list \<Rightarrow> (py_exn + ApiResponse) \<times> event list" where
  "complete_large_upload net self upload_id application_id version file_name file_size checksum
       release_notes log =
     (let payload =
            [(''uploadId'', upload_id),
             (''applicationId'', JStr application_id),
             (''version'', JStr version),
             (''fileName'', JStr file_name),
             (''fileSize'', JInt file_size),
             (''checksum'', JStr checksum)];
          payload =
            (if truthy_opt release_notes
             then payload @ [(''releaseNotes'', JStr (the release_notes))] else payload)
      in post net self ''/management/upload/large-complete'' (JObj payload) None log)"

definition upload_large_file ::
  "network \<Rightarrow> BaseClient \<Rightarrow> string \<Rightarrow> string \<Rightarrow> string \<Rightarrow> bytes \<Rightarrow> string option
     \<Rightarrow> event list \<Rightarrow> (py_exn + ApiResponse) \<times> event list" where
  "upload_large_file net self application_id version file_name file_content release_notes log =
     (let file_size = int (length file_content) in
      case hashlib_sha256_hexdigest file_content log of
        (checksum, log0) \<Rightarrow>
      \<comment> \<open>Step 1: get upload URL\<close>
      (case get_large_upload_url net self application_id version file_name file_size
              ''application/octet-stream'' log0 of
         (Inl e, log1) \<Rightarrow> (Inl e, log1)
       | (Inr url_response, log1) \<Rightarrow>
           if \<not> truthy (success url_response) \<or> data url_response = JNull
           then (Inr url_response, log1)
           else
             (case py_getitem (data url_response) ''uploadId'' of
                Inl e \<Rightarrow> (Inl e, log1)
              | Inr upload_id \<Rightarrow>
             (case py_getitem (data url_response) ''uploadUrl'' of
                Inl e \<Rightarrow> (Inl e, log1)
              | Inr upload_url \<Rightarrow>
             \<comment> \<open>Step 2: upload to S3\<close>
             (case put_binary net self upload_url file_content ''application/octet-stream'' log1 of
                (Inl e, log2) \<Rightarrow> (Inl e, log2)
              | (Inr s3_response, log2) \<Rightarrow>
                  if rs_status_code s3_response \<noteq> 200
                  then
                    (Inr \<lparr>success = JBool False,
                          status_code = rs_status_code s3_response,
                          data = JNull,
                          error = JObj [(''message'',
                                         JStr (''S3 upload failed: '' @ rs_text s3_response))],
                          meta = JNull,
                          raw = JObj [(''error'', JStr (rs_text s3_response))]\<rparr>, log2)
                  else
                    \<comment> \<open>Step 3: complete upload\<close>
                    complete_large_upload net self upload_id application_id version file_name
                      file_size checksum release_notes log2)))))"

section \<open>customer.py\<close>

definition get_download_url ::
  "network \<Rightarrow> BaseClient \<Rightarrow> string \<Rightarrow> string \<Rightarrow> string option \<Rightarrow> bool \<Rightarrow> event list
     \<Rightarrow> (py_exn + ApiResponse) \<times> event list" where
  "get_download_url net self application_id version file_id test_channel log =
     (let params =
            [(''applicationId'', JStr application_id),
             (''version'', JStr version)];
          params =
            (if truthy_opt file_id then params @ [(''fileId'', JStr (the file_id))] else params);
          hdrs = (if test_channel then [(''X-Channel'', ''Test'')] else [])
      in get net self ''/downloads/url'' (JObj params) (if hdrs \<noteq> [] then Some hdrs else None) log)"

definition download_file ::
  "network \<Rightarrow> BaseClient \<Rightarrow> string \<Rightarrow> string \<Rightarrow> string option \<Rightarrow> bool \<Rightarrow> bool \<Rightarrow> event list
     \<Rightarrow> (py_exn + bytes \<times> json) \<times> event list" where
  "download_file net self application_id version file_id test_channel verify_checksum log =
     (case get_download_url net self application_id version file_id test_channel log of
        (Inl e, log1) \<Rightarrow> (Inl e, log1)
      | (Inr url_response, log1) \<Rightarrow>
          if \<not> truthy (success url_response) \<or> data url_response = JNull
          then (Inl (PyException [Lit ''Failed to get download URL: '',
                                  Fmt (error url_response)]), log1)
          else
            (let d = data url_response in
             case py_getitem d ''url'' of
               Inl e \<Rightarrow> (Inl e, log1)
             | Inr download_url \<Rightarrow>
            (case py_get d ''checksum'' JNull of
               Inl e \<Rightarrow> (Inl e, log1)
             | Inr expected_checksum \<Rightarrow>
            (case py_get d ''fileName'' JNull of
               Inl e \<Rightarrow> (Inl e, log1)
             | Inr file_name \<Rightarrow>
            (case py_get d ''fileSize'' JNull of
               Inl e \<Rightarrow> (Inl e, log1)
             | Inr file_size \<Rightarrow>
            (case py_get d ''expiresAt'' JNull of
               Inl e \<Rightarrow> (Inl e, log1)
             | Inr expires_at \<Rightarrow>
            (let metadata =
                   JObj [(''fileName'', file_name),
                         (''fileSize'', file_size),
                         (''checksum'', expected_checksum),
                         (''expiresAt'', expires_at)]
             in case download net self download_url log1 of
                  (Inl e, log2) \<Rightarrow> (Inl e, log2)
                | (Inr content, log2) \<Rightarrow>
                    if verify_checksum \<and> truthy expected_checksum
                    then
                      (case hashlib_sha256_hexdigest content log2 of
                         (actual_checksum, log3) \<Rightarrow>
                           if JStr actual_checksum \<noteq> expected_checksum
                           then (Inl (ValueError [Lit ''Checksum mismatch: expected '',
                                                  Fmt expected_checksum,
                                                  Lit '', got '',
                                                  Fmt (JStr actual_checksum)]), log3)
                           else (Inr (content, metadata), log3))
                    else (Inr (content, metadata), log2))))))))"

section \<open>Vocabulary of the properties\<close>





text \<open>The three requests of a large upload, told apart by what they carry.\<close>

definition is_upload_url_call :: "BaseClient \<Rightarrow> int \<Rightarrow> http_request \<Rightarrow> bool" where
  "is_upload_url_call self file_size rq \<longleftrightarrow>
     rq_method rq = ''POST'' \<and>
     rq_url rq = JStr (private_url self ''/management/upload/large-url'') \<and>
     py_getitem (rq_json rq) ''fileSize'' = Inr (JInt file_size)"

definition is_storage_put :: "bytes \<Rightarrow> http_request \<Rightarrow> bool" where
  "is_storage_put content rq \<longleftrightarrow>
     rq_method rq = ''PUT'' \<and> rq_data rq = Some content \<and> rq_session rq = None"

definition is_completion_call :: "BaseClient \<Rightarrow> int \<Rightarrow> string \<Rightarrow> http_request \<Rightarrow> bool" where
  "is_completion_call self file_size checksum rq \<longleftrightarrow>
     rq_method rq = ''POST'' \<and>
     rq_url rq = JStr (private_url self ''/management/upload/large-complete'') \<and>
     py_getitem (rq_json rq) ''fileSize'' = Inr (JInt file_size) \<and>
     py_getitem (rq_json rq) ''checksum'' = Inr (JStr checksum)"

text \<open>The two requests of a download.\<close>

definition is_download_url_call :: "BaseClient \<Rightarrow> http_request \<Rightarrow> bool" where
  "is_download_url_call self rq \<longleftrightarrow>
     rq_method rq = ''GET'' \<and> rq_url rq = JStr (private_url self ''/downloads/url'')"

definition is_storage_get :: "json \<Rightarrow> http_request \<Rightarrow> bool" where
  "is_storage_get url rq \<longleftrightarrow>
     rq_method rq = ''GET'' \<and> rq_url rq = url \<and> rq_session rq = None \<and> rq_headers rq = None"

text \<open>What \<open>download_file\<close> returns beside the bytes, read off the download-URL data.\<close>

definition dict_get :: "json \<Rightarrow> string \<Rightarrow> json" where
  "dict_get d k = (case py_get d k JNull of Inl e \<Rightarrow> JNull | Inr v \<Rightarrow> v)"

definition file_metadata :: "json \<Rightarrow> json" where
  "file_metadata d =
     JObj [(''fileName'', dict_get d ''fileName''),
           (''fileSize'', dict_get d ''fileSize''),
           (''checksum'', dict_get d ''checksum''),
           (''expiresAt'', dict_get d ''expiresAt'')]"

section \<open>Concrete inputs\<close>

definition html_error_page :: http_response where
  "html_error_page =
     \<lparr>rs_status_code = 502, rs_content = [], rs_text = ''<html>Bad Gateway</html>'',
      rs_json = None\<rparr>"

definition json_array_body :: http_response where
  "json_array_body =
     \<lparr>rs_status_code = 200, rs_content = [], rs_text = ''[1]'', rs_json = Some (JArr [JInt 1])\<rparr>"

definition envelope_body :: http_response where
  "envelope_body =
     \<lparr>rs_status_code = 200, rs_content = [], rs_text = ''{\"success\": false, \"extra\": 1}'',
      rs_json = Some (JObj [(''success'', JBool False), (''extra'', JInt 1)])\<rparr>"

definition demo_client :: BaseClient where
  "demo_client =
     BaseClient_init [(''User-Agent'', ''python-requests''), (''Accept'', ''*/*'')]
       ''https://api.bindist.eu/'' ''tenant.secret''"

definition json_reply :: "json \<Rightarrow> http_response" where
  "json_reply j = \<lparr>rs_status_code = 200, rs_content = [], rs_text = [], rs_json = Some j\<rparr>"

definition storage_reply :: "int \<Rightarrow> bytes \<Rightarrow> string \<Rightarrow> http_response" where
  "storage_reply code content text =
     \<lparr>rs_status_code = code, rs_content = content, rs_text = text, rs_json = None\<rparr>"

text \<open>
  A network for the examples: the storage answers every request that goes through no
  session with one fixed response; the API answers the completion call with a success
  envelope and every other call with the given envelope.
\<close>

definition demo_network :: "json \<Rightarrow> http_response \<Rightarrow> network" where
  "demo_network envelope storage log rq =
     (case rq_session rq of
        None \<Rightarrow> Inr storage
      | Some sh \<Rightarrow>
          if rq_url rq = JStr ''https://api.bindist.eu/v1/management/upload/large-complete''
          then Inr (json_reply (JObj [(''success'', JBool True),
                                      (''data'', JObj [(''version'', JStr ''1.0.0'')])]))
          else Inr (json_reply envelope))"

definition upload_granted :: json where
  "upload_granted =
     JObj [(''success'', JBool True),
           (''data'', JObj [(''uploadId'', JStr ''u-1''),
                            (''uploadUrl'', JStr ''https://s3.example/u-1'')])]"

definition upload_refused :: json where
  "upload_refused =
     JObj [(''success'', JBool False),
           (''error'', JObj [(''message'', JStr ''quota exceeded'')])]"

definition upload_no_data :: json where
  "upload_no_data = JObj [(''success'', JBool True)]"

definition download_granted :: "(string \<times> json) list \<Rightarrow> json" where
  "download_granted extra =
     JObj [(''success'', JBool True),
           (''data'', JObj ([(''url'', JStr ''https://s3.example/f''),
                             (''fileName'', JStr ''f.bin'')] @ extra))]"

definition demo_upload_url_request ::
  "string \<Rightarrow> string \<Rightarrow> string \<Rightarrow> int \<Rightarrow> string \<Rightarrow> http_request" where
  "demo_upload_url_request application_id version file_name file_size content_type =
     \<lparr>rq_session = Some (session_headers demo_client), rq_method = ''POST'',
      rq_url = JStr ''https://api.bindist.eu/v1/management/upload/large-url'',
      rq_params = JNull,
      rq_json = JObj [(''applicationId'', JStr application_id),
                      (''version'', JStr version),
                      (''fileName'', JStr file_name),
                      (''fileSize'', JInt file_size),
                      (''contentType'', JStr content_type)],
      rq_data = None, rq_headers = None\<rparr>"

definition demo_put_request :: "json \<Rightarrow> bytes \<Rightarrow> string \<Rightarrow> http_request" where
  "demo_put_request url content content_type =
     \<lparr>rq_session = None, rq_method = ''PUT'', rq_url = url, rq_params = JNull,
      rq_json = JNull, rq_data = Some content,
      rq_headers = Some [(''Content-Type'', content_type)]\<rparr>"

definition refused_result :: ApiResponse where
  "refused_result =
     \<lparr>success = JBool False, status_code = 200, data = JNull,
      error = JObj [(''message'', JStr ''quota exceeded'')], meta = JNull,
      raw = upload_refused\<rparr>"

definition no_data_result :: ApiResponse where
  "no_data_result =
     \<lparr>success = JBool True, status_code = 200, data = JNull, error = JNull, meta = JNull,
      raw = upload_no_data\<rparr>"

definition granted_result :: ApiResponse where
  "granted_result =
     \<lparr>success = JBool True, status_code = 200,
      data = JObj [(''uploadId'', JStr ''u-1''), (''uploadUrl'', JStr ''https://s3.example/u-1'')],
      error = JNull, meta = JNull, raw = upload_granted\<rparr>"

definition demo_download_url_request :: "string \<Rightarrow> string \<Rightarrow> http_request" where
  "demo_download_url_request application_id version =
     \<lparr>rq_session = Some (session_headers demo_client), rq_method = ''GET'',
      rq_url = JStr ''https://api.bindist.eu/v1/downloads/url'',
      rq_params = JObj [(''applicationId'', JStr application_id), (''version'', JStr version)],
      rq_json = JNull, rq_data = None, rq_headers = None\<rparr>"

definition demo_storage_get :: "json \<Rightarrow> http_request" where
  "demo_storage_get url =
     \<lparr>rq_session = None, rq_method = ''GET'', rq_url = url, rq_params = JNull,
      rq_json = JNull, rq_data = None, rq_headers = None\<rparr>"

definition download_result :: "(string \<times> json) list \<Rightarrow> ApiResponse" where
  "download_result extra =
     \<lparr>success = JBool True, status_code = 200,
      data = JObj ([(''url'', JStr ''https://s3.example/f''), (''fileName'', JStr ''f.bin'')]
                   @ extra),
      error = JNull, meta = JNull, raw = download_granted extra\<rparr>"





section \<open>The envelope decoder\<close>

lemma from_response_undecodable:
  "rs_json response = None \<Longrightarrow>
   from_response response =
     Inr \<lparr>success = JBool False, status_code = rs_status_code response, data = JNull,
          error = JObj [(''message'', JStr (rs_text response))], meta = JNull,
          raw = JObj [(''success'', JBool False),
                      (''error'', JObj [(''message'', JStr (rs_text response))])]\<rparr>"
  by (simp add: from_response_def)

lemma from_response_object:
  "rs_json response = Some (JObj kvs) \<Longrightarrow>
   from_response response =
     Inr \<lparr>success = (case map_of kvs ''success'' of None \<Rightarrow> JBool False | Some v \<Rightarrow> v),
          status_code = rs_status_code response,
          data = (case map_of kvs ''data'' of None \<Rightarrow> JNull | Some v \<Rightarrow> v),
          error = (case map_of kvs ''error'' of None \<Rightarrow> JNull | Some v \<Rightarrow> v),
          meta = (case map_of kvs ''meta'' of None \<Rightarrow> JNull | Some v \<Rightarrow> v),
          raw = JObj kvs\<rparr>"
  by (simp add: from_response_def split: option.splits)

lemma from_response_non_object:
  "rs_json response = Some j \<Longrightarrow> (\<forall>kvs. j \<noteq> JObj kvs) \<Longrightarrow>
   from_response response = Inl AttributeError"
  by (cases j) (simp_all add: from_response_def)

lemma from_response_envelope_body:
  "from_response envelope_body =
     Inr \<lparr>success = JBool False, status_code = 200, data = JNull, error = JNull, meta = JNull,
          raw = JObj [(''success'', JBool False), (''extra'', JInt 1)]\<rparr>"
  by (simp add: envelope_body_def from_response_def)

text \<open>
  C5, as amended. A response whose body is not JSON is decoded without an exception:
  success is false, data and meta are null, error is \<open>{message: <body text>}\<close>, the
  status code is the response's, and raw is the whole synthesized envelope
  \<open>{success: false, error: {message: <body text>}}\<close>.
\<close>

theorem C5_non_json_body:
  "rs_json response = None \<Longrightarrow>
   from_response response =
     Inr \<lparr>success = JBool False, status_code = rs_status_code response, data = JNull,
          error = JObj [(''message'', JStr (rs_text response))], meta = JNull,
          raw = JObj [(''success'', JBool False),
                      (''error'', JObj [(''message'', JStr (rs_text response))])]\<rparr>"
  by (rule from_response_undecodable)

theorem C5_non_json_body_witness:
  "rs_json html_error_page = None \<and>
   from_response html_error_page =
     Inr \<lparr>success = JBool False, status_code = 502, data = JNull,
          error = JObj [(''message'', JStr ''<html>Bad Gateway</html>'')], meta = JNull,
          raw = JObj [(''success'', JBool False),
                      (''error'', JObj [(''message'', JStr ''<html>Bad Gateway</html>'')])]\<rparr>"
proof -
  have h: "rs_json html_error_page = None"
    by (simp add: html_error_page_def)
  show ?thesis
    using h C5_non_json_body [OF h] by (simp add: html_error_page_def)
qed

text \<open>
  C5 as the claim words it fails: for the HTML error page the decoder's raw field is not
  \<open>{error: <body text>}\<close>, so the result is not the record the claim describes.
\<close>

theorem C5_raw_counterexample:
  "rs_json html_error_page = None \<and>
   from_response html_error_page \<noteq>
     Inr \<lparr>success = JBool False, status_code = 502, data = JNull,
          error = JObj [(''message'', JStr ''<html>Bad Gateway</html>'')], meta = JNull,
          raw = JObj [(''error'', JStr ''<html>Bad Gateway</html>'')]\<rparr>"
  by (simp add: html_error_page_def from_response_def)

text \<open>
  C6, as amended. A response whose body decodes to a JSON object is decoded without an
  exception: success, data, error and meta are the values under those keys, false for an
  absent success and null for the others, and raw is the whole object, whatever other
  keys it holds.
\<close>

theorem C6_json_object_body:
  "rs_json response = Some (JObj kvs) \<Longrightarrow>
   from_response response =
     Inr \<lparr>success = (case map_of kvs ''success'' of None \<Rightarrow> JBool False | Some v \<Rightarrow> v),
          status_code = rs_status_code response,
          data = (case map_of kvs ''data'' of None \<Rightarrow> JNull | Some v \<Rightarrow> v),
          error = (case map_of kvs ''error'' of None \<Rightarrow> JNull | Some v \<Rightarrow> v),
          meta = (case map_of kvs ''meta'' of None \<Rightarrow> JNull | Some v \<Rightarrow> v),
          raw = JObj kvs\<rparr>"
  by (rule from_response_object)

theorem C6_json_object_body_witness:
  "rs_json envelope_body = Some (JObj [(''success'', JBool False), (''extra'', JInt 1)]) \<and>
   from_response envelope_body =
     Inr \<lparr>success = JBool False, status_code = 200, data = JNull, error = JNull, meta = JNull,
          raw = JObj [(''success'', JBool False), (''extra'', JInt 1)]\<rparr>"
proof -
  have h: "rs_json envelope_body = Some (JObj [(''success'', JBool False), (''extra'', JInt 1)])"
    by (simp add: envelope_body_def)
  show ?thesis
    using h C6_json_object_body [OF h] by (simp add: envelope_body_def)
qed

text \<open>
  C6 as the claim words it fails: a body that decodes to a JSON array makes the decoder
  raise (\<open>list\<close> has no \<open>get\<close>), so it does not return for every shape.
\<close>

theorem C6_array_counterexample:
  "rs_json json_array_body = Some (JArr [JInt 1]) \<and>
   from_response json_array_body = Inl AttributeError"
  by (simp add: json_array_body_def from_response_def)

text \<open>
  C7. Every ApiResponse the decoder produces has, as raw, the decoded body or the
  synthesized envelope; its success is the value under \<open>success\<close> in raw, false when the
  key is absent, and false when the body could not be decoded; its status code is the
  response's, whatever the envelope says. The decoder does produce one whenever the body
  is not JSON or decodes to an object.
\<close>

theorem C7_decoder_invariant:
  "(from_response response = Inr r \<longrightarrow>
      raw r =
        (case rs_json response of
           Some j \<Rightarrow> j
         | None \<Rightarrow> JObj [(''success'', JBool False),
                         (''error'', JObj [(''message'', JStr (rs_text response))])]) \<and>
      py_get (raw r) ''success'' (JBool False) = Inr (success r) \<and>
      (rs_json response = None \<longrightarrow> success r = JBool False) \<and>
      status_code r = rs_status_code response) \<and>
   ((rs_json response = None \<or> (\<exists>kvs. rs_json response = Some (JObj kvs))) \<longrightarrow>
      (\<exists>r'. from_response response = Inr r'))"
proof (cases "rs_json response")
  case None
  then show ?thesis by (auto simp: from_response_undecodable)
next
  case (Some j)
  show ?thesis
  proof (cases "\<exists>kvs. j = JObj kvs")
    case True
    then obtain kvs where "j = JObj kvs" by blast
    with Some show ?thesis by (auto simp: from_response_object split: option.splits)
  next
    case False
    with Some have "from_response response = Inl AttributeError"
      by (simp add: from_response_non_object)
    with Some False show ?thesis by simp
  qed
qed

theorem C7_decoder_invariant_witness:
  "from_response envelope_body =
     Inr \<lparr>success = JBool False, status_code = 200, data = JNull, error = JNull, meta = JNull,
          raw = JObj [(''success'', JBool False), (''extra'', JInt 1)]\<rparr> \<and>
   rs_json envelope_body = Some (JObj [(''success'', JBool False), (''extra'', JInt 1)]) \<and>
   py_get (JObj [(''success'', JBool False), (''extra'', JInt 1)]) ''success'' (JBool False)
     = Inr (JBool False) \<and>
   rs_status_code envelope_body = 200"
proof -
  let ?r = "\<lparr>success = JBool False, status_code = 200, data = JNull, error = JNull,
             meta = JNull, raw = JObj [(''success'', JBool False), (''extra'', JInt 1)]\<rparr>"
  have e: "from_response envelope_body = Inr ?r"
    by (rule from_response_envelope_body)
  have j: "rs_json envelope_body = Some (JObj [(''success'', JBool False), (''extra'', JInt 1)])"
    by (simp add: envelope_body_def)
  from C7_decoder_invariant [of envelope_body ?r] e
  have "py_get (raw ?r) ''success'' (JBool False) = Inr (success ?r)"
    and "status_code ?r = rs_status_code envelope_body"
    by blast+
  with e j show ?thesis by simp
qed

section \<open>The large upload\<close>

lemma snd_session_request:
  "snd (session_request net self method path params body hdrs log) =
     log @ [Sent \<lparr>rq_session = Some (session_headers self), rq_method = method,
                  rq_url = JStr (private_url self path), rq_params = params, rq_json = body,
                  rq_data = None, rq_headers = hdrs\<rparr>]"
  by (simp add: session_request_def send_def split: sum.splits)

lemma get_large_upload_url_log:
  assumes "get_large_upload_url net self application_id version file_name file_size content_type log
             = (r, log1)"
  shows "\<exists>rq. log1 = log @ [Sent rq] \<and> is_upload_url_call self file_size rq"
  using arg_cong [OF assms, of snd]
  by (auto simp add: get_large_upload_url_def post_def snd_session_request is_upload_url_call_def)

lemma put_binary_log:
  assumes "put_binary net self url content content_type log = (r, log1)"
  shows "\<exists>rq. log1 = log @ [Sent rq] \<and> is_storage_put content rq"
  using arg_cong [OF assms, of snd]
  by (auto simp add: put_binary_def send_def is_storage_put_def)

lemma complete_large_upload_log:
  assumes "complete_large_upload net self upload_id application_id version file_name file_size
             checksum release_notes log = (r, log1)"
  shows "\<exists>rq. log1 = log @ [Sent rq] \<and> is_completion_call self file_size checksum rq"
  using arg_cong [OF assms, of snd]
  by (auto simp add: complete_large_upload_def post_def snd_session_request Let_def
        is_completion_call_def)

lemma upload_large_file_abort:
  assumes "get_large_upload_url net self application_id version file_name
             (int (length file_content)) ''application/octet-stream'' (log @ [Hashed file_content])
           = (Inr url_response, log1)"
      and "\<not> truthy (success url_response) \<or> data url_response = JNull"
  shows "upload_large_file net self application_id version file_name file_content release_notes log
           = (Inr url_response, log1) \<and>
         (\<exists>rq1. log1 = log @ [Hashed file_content, Sent rq1] \<and>
                is_upload_url_call self (int (length file_content)) rq1)"
proof
  show "upload_large_file net self application_id version file_name file_content release_notes log
           = (Inr url_response, log1)"
    using assms by (auto simp add: upload_large_file_def hashlib_sha256_hexdigest_def Let_def)
  show "\<exists>rq1. log1 = log @ [Hashed file_content, Sent rq1] \<and>
                is_upload_url_call self (int (length file_content)) rq1"
    using get_large_upload_url_log [OF assms(1)] by auto
qed

lemma upload_large_file_storage_failure:
  assumes "get_large_upload_url net self application_id version file_name
             (int (length file_content)) ''application/octet-stream'' (log @ [Hashed file_content])
           = (Inr url_response, log1)"
      and "truthy (success url_response)"
      and "py_getitem (data url_response) ''uploadId'' = Inr upload_id"
      and "py_getitem (data url_response) ''uploadUrl'' = Inr upload_url"
      and "put_binary net self upload_url file_content ''application/octet-stream'' log1
           = (Inr s3_response, log2)"
      and "rs_status_code s3_response \<noteq> 200"
  shows "upload_large_file net self application_id version file_name file_content release_notes log
           = (Inr \<lparr>success = JBool False,
                   status_code = rs_status_code s3_response,
                   data = JNull,
                   error = JObj [(''message'', JStr (''S3 upload failed: '' @ rs_text s3_response))],
                   meta = JNull,
                   raw = JObj [(''error'', JStr (rs_text s3_response))]\<rparr>, log2)"
proof -
  from assms(3) have "data url_response \<noteq> JNull" by auto
  with assms show ?thesis
    by (simp add: upload_large_file_def hashlib_sha256_hexdigest_def Let_def)
qed

lemma upload_large_file_completes:
  assumes "get_large_upload_url net self application_id version file_name
             (int (length file_content)) ''application/octet-stream'' (log @ [Hashed file_content])
           = (Inr url_response, log1)"
      and "truthy (success url_response)"
      and "py_getitem (data url_response) ''uploadId'' = Inr upload_id"
      and "py_getitem (data url_response) ''uploadUrl'' = Inr upload_url"
      and "put_binary net self upload_url file_content ''application/octet-stream'' log1
           = (Inr s3_response, log2)"
      and "rs_status_code s3_response = 200"
  shows "upload_large_file net self application_id version file_name file_content release_notes log
           = complete_large_upload net self upload_id application_id version file_name
               (int (length file_content)) (sha256_hexdigest file_content) release_notes log2"
proof -
  from assms(3) have "data url_response \<noteq> JNull" by auto
  with assms show ?thesis
    by (simp add: upload_large_file_def hashlib_sha256_hexdigest_def Let_def)
qed

lemma upload_large_file_trace:
  "\<exists>rq1 rq2 rq3.
     is_upload_url_call self (int (length file_content)) rq1 \<and>
     is_storage_put file_content rq2 \<and>
     is_completion_call self (int (length file_content)) (sha256_hexdigest file_content) rq3 \<and>
     snd (upload_large_file net self application_id version file_name file_content release_notes log)
       \<in> {log @ [Hashed file_content, Sent rq1],
           log @ [Hashed file_content, Sent rq1, Sent rq2],
           log @ [Hashed file_content, Sent rq1, Sent rq2, Sent rq3]}"
proof -
  let ?C = file_content
  let ?run = "upload_large_file net self application_id version file_name ?C release_notes log"
  obtain r1 log1 where s1:
    "get_large_upload_url net self application_id version file_name (int (length ?C))
       ''application/octet-stream'' (log @ [Hashed ?C]) = (r1, log1)"
    by (cases "get_large_upload_url net self application_id version file_name (int (length ?C))
       ''application/octet-stream'' (log @ [Hashed ?C])") blast
  from get_large_upload_url_log [OF s1] obtain rq1 where
    l1: "log1 = log @ [Hashed ?C, Sent rq1]" and c1: "is_upload_url_call self (int (length ?C)) rq1"
    by auto
  define spare_put where "spare_put =
    \<lparr>rq_session = None, rq_method = ''PUT'', rq_url = JNull, rq_params = JNull,
     rq_json = JNull, rq_data = Some ?C, rq_headers = None\<rparr>"
  have dp: "is_storage_put ?C spare_put"
    by (simp add: is_storage_put_def spare_put_def)
  define spare_done where "spare_done =
    \<lparr>rq_session = None, rq_method = ''POST'',
     rq_url = JStr (private_url self ''/management/upload/large-complete''), rq_params = JNull,
     rq_json = JObj [(''fileSize'', JInt (int (length ?C))),
                     (''checksum'', JStr (sha256_hexdigest ?C))],
     rq_data = None, rq_headers = None\<rparr>"
  have dd: "is_completion_call self (int (length ?C)) (sha256_hexdigest ?C) spare_done"
    by (simp add: is_completion_call_def spare_done_def)
  have "snd ?run = log1 \<or>
        (\<exists>url_response upload_id upload_url.
           r1 = Inr url_response \<and> truthy (success url_response) \<and>
           py_getitem (data url_response) ''uploadId'' = Inr upload_id \<and>
           py_getitem (data url_response) ''uploadUrl'' = Inr upload_url)"
    using s1
    by (cases r1)
       (auto simp: upload_large_file_def hashlib_sha256_hexdigest_def Let_def split: sum.splits)
  then consider
      (stop1) "snd ?run = log1"
    | (step2) url_response upload_id upload_url where
        "r1 = Inr url_response" "truthy (success url_response)"
        "py_getitem (data url_response) ''uploadId'' = Inr upload_id"
        "py_getitem (data url_response) ''uploadUrl'' = Inr upload_url"
    by blast
  then show ?thesis
  proof cases
    case stop1
    with l1 c1 dp dd show ?thesis by auto
  next
    case step2
    obtain r2 log2 where s2:
      "put_binary net self upload_url ?C ''application/octet-stream'' log1 = (r2, log2)"
      by (cases "put_binary net self upload_url ?C ''application/octet-stream'' log1") blast
    from put_binary_log [OF s2] obtain rq2 where
      l2: "log2 = log1 @ [Sent rq2]" and c2: "is_storage_put ?C rq2"
      by auto
    from step2(3) have nn: "data url_response \<noteq> JNull" by auto
    show ?thesis
    proof (cases "\<exists>s3. r2 = Inr s3 \<and> rs_status_code s3 = 200")
      case False
      with s1 s2 step2 nn have "snd ?run = log2"
        by (auto simp: upload_large_file_def hashlib_sha256_hexdigest_def Let_def
                 split: sum.splits)
      with l1 l2 c1 c2 dd show ?thesis by auto
    next
      case True
      then obtain s3 where r2: "r2 = Inr s3" and ok: "rs_status_code s3 = 200" by blast
      from s1 s2 step2 r2 ok
      have run: "?run = complete_large_upload net self upload_id application_id version file_name
               (int (length ?C)) (sha256_hexdigest ?C) release_notes log2"
        by (simp add: upload_large_file_completes)
      obtain r3 log3 where s3: "complete_large_upload net self upload_id application_id version
          file_name (int (length ?C)) (sha256_hexdigest ?C) release_notes log2 = (r3, log3)"
        by (cases "complete_large_upload net self upload_id application_id version
          file_name (int (length ?C)) (sha256_hexdigest ?C) release_notes log2") blast
      from complete_large_upload_log [OF s3] obtain rq3 where
        l3: "log3 = log2 @ [Sent rq3]"
        and c3: "is_completion_call self (int (length ?C)) (sha256_hexdigest ?C) rq3"
        by auto
      from run s3 l1 l2 l3 have "snd ?run = log @ [Hashed ?C, Sent rq1, Sent rq2, Sent rq3]"
        by simp
      with c1 c2 c3 show ?thesis by blast
    qed
  qed
qed

subsection \<open>The example network, evaluated\<close>

lemma demo_private_url:
  "private_url demo_client path = ''https://api.bindist.eu/v1'' @ path"
  by (simp add: private_url_def demo_client_def BaseClient_init_def rstrip_def)

lemma demo_get_large_upload_url:
  "get_large_upload_url (demo_network envelope storage) demo_client application_id version
       file_name file_size content_type log =
     (from_response (json_reply envelope), log @ [Sent (demo_upload_url_request application_id version file_name file_size content_type)])"
  by (simp add: get_large_upload_url_def post_def session_request_def send_def demo_network_def
        demo_private_url demo_upload_url_request_def)

lemma demo_put_binary:
  "put_binary (demo_network envelope storage) demo_client url content content_type log =
     (Inr storage, log @ [Sent (demo_put_request url content content_type)])"
  by (simp add: put_binary_def send_def demo_network_def demo_put_request_def)

lemma from_response_upload_refused:
  "from_response (json_reply upload_refused) = Inr refused_result"
  by (simp add: from_response_def json_reply_def upload_refused_def refused_result_def)

lemma from_response_upload_no_data:
  "from_response (json_reply upload_no_data) = Inr no_data_result"
  by (simp add: from_response_def json_reply_def upload_no_data_def no_data_result_def)

lemma from_response_upload_granted:
  "from_response (json_reply upload_granted) = Inr granted_result"
  by (simp add: from_response_def json_reply_def upload_granted_def granted_result_def)


subsection \<open>Claims on the large upload\<close>

text \<open>
  C1. For every content \<open>C\<close> and whatever the network answers, \<open>upload_large_file\<close>
  computes the SHA-256 digest of \<open>C\<close> exactly once and before any request: the run's
  events are the digest of \<open>C\<close>, then the request-upload-URL call carrying
  \<open>fileSize = len(C)\<close>, then at most the storage PUT of \<open>C\<close> and the completion call,
  and a completion call carries \<open>checksum = sha256(C)\<close> and \<open>fileSize = len(C)\<close>.
  When the first two steps succeed, the run is the call of \<open>complete_large_upload\<close>
  with that digest as its checksum argument.
\<close>

theorem C1_checksum_computed_once:
  "(\<exists>rq1 rq2 rq3.
      is_upload_url_call self (int (length file_content)) rq1 \<and>
      is_storage_put file_content rq2 \<and>
      is_completion_call self (int (length file_content)) (sha256_hexdigest file_content) rq3 \<and>
      snd (upload_large_file net self application_id version file_name file_content
             release_notes log)
        \<in> {log @ [Hashed file_content, Sent rq1],
            log @ [Hashed file_content, Sent rq1, Sent rq2],
            log @ [Hashed file_content, Sent rq1, Sent rq2, Sent rq3]}) \<and>
   (get_large_upload_url net self application_id version file_name
        (int (length file_content)) ''application/octet-stream'' (log @ [Hashed file_content])
      = (Inr url_response, log1) \<and>
    truthy (success url_response) \<and>
    py_getitem (data url_response) ''uploadId'' = Inr upload_id \<and>
    py_getitem (data url_response) ''uploadUrl'' = Inr upload_url \<and>
    put_binary net self upload_url file_content ''application/octet-stream'' log1
      = (Inr s3_response, log2) \<and>
    rs_status_code s3_response = 200
    \<longrightarrow>
    upload_large_file net self application_id version file_name file_content release_notes log
      = complete_large_upload net self upload_id application_id version file_name
          (int (length file_content)) (sha256_hexdigest file_content) release_notes log2)"
  using upload_large_file_trace [of self file_content net application_id version file_name
          release_notes log]
        upload_large_file_completes [of net self application_id version file_name file_content
          log url_response log1 upload_id upload_url s3_response log2 release_notes]
  by blast

theorem C1_checksum_computed_once_witness:
  "get_large_upload_url (demo_network upload_granted (storage_reply 200 [] [])) demo_client
       ''app'' ''1.0.0'' ''f.bin'' (int (length [1, 2, 3 :: byte])) ''application/octet-stream''
       ([] @ [Hashed [1, 2, 3]])
     = (Inr granted_result,
        [Hashed [1, 2, 3],
         Sent (demo_upload_url_request ''app'' ''1.0.0'' ''f.bin'' 3 ''application/octet-stream'')]) \<and>
   truthy (success granted_result) \<and>
   py_getitem (data granted_result) ''uploadId'' = Inr (JStr ''u-1'') \<and>
   py_getitem (data granted_result) ''uploadUrl'' = Inr (JStr ''https://s3.example/u-1'') \<and>
   upload_large_file (demo_network upload_granted (storage_reply 200 [] [])) demo_client
       ''app'' ''1.0.0'' ''f.bin'' [1, 2, 3] None []
     = complete_large_upload (demo_network upload_granted (storage_reply 200 [] [])) demo_client
         (JStr ''u-1'') ''app'' ''1.0.0'' ''f.bin'' 3 (sha256_hexdigest [1, 2, 3]) None
         [Hashed [1, 2, 3],
          Sent (demo_upload_url_request ''app'' ''1.0.0'' ''f.bin'' 3 ''application/octet-stream''),
          Sent (demo_put_request (JStr ''https://s3.example/u-1'') [1, 2, 3]
                  ''application/octet-stream'')]"
proof -
  let ?net = "demo_network upload_granted (storage_reply 200 [] [])"
  let ?C = "[1, 2, 3] :: bytes"
  let ?log1 = "[Hashed ?C,
       Sent (demo_upload_url_request ''app'' ''1.0.0'' ''f.bin'' 3 ''application/octet-stream'')]"
  let ?log2 = "?log1 @ [Sent (demo_put_request (JStr ''https://s3.example/u-1'') ?C
                  ''application/octet-stream'')]"
  have h1: "get_large_upload_url ?net demo_client ''app'' ''1.0.0'' ''f.bin'' (int (length ?C))
       ''application/octet-stream'' ([] @ [Hashed ?C]) = (Inr granted_result, ?log1)"
    by (simp add: demo_get_large_upload_url from_response_upload_granted)
  have h2: "truthy (success granted_result)"
    by (simp add: granted_result_def)
  have h3: "py_getitem (data granted_result) ''uploadId'' = Inr (JStr ''u-1'')"
    by (simp add: granted_result_def)
  have h4: "py_getitem (data granted_result) ''uploadUrl'' = Inr (JStr ''https://s3.example/u-1'')"
    by (simp add: granted_result_def)
  have h5: "put_binary ?net demo_client (JStr ''https://s3.example/u-1'') ?C
       ''application/octet-stream'' ?log1 = (Inr (storage_reply 200 [] []), ?log2)"
    by (simp add: demo_put_binary)
  have h6: "rs_status_code (storage_reply 200 [] []) = 200"
    by (simp add: storage_reply_def)
  from C1_checksum_computed_once [of demo_client ?C ?net "''app''" "''1.0.0''" "''f.bin''" None
         "[]" granted_result ?log1 "JStr ''u-1''" "JStr ''https://s3.example/u-1''"
         "storage_reply 200 [] []" ?log2] h1 h2 h3 h4 h5 h6
  have "upload_large_file ?net demo_client ''app'' ''1.0.0'' ''f.bin'' ?C None []
     = complete_large_upload ?net demo_client (JStr ''u-1'') ''app'' ''1.0.0'' ''f.bin''
         (int (length ?C)) (sha256_hexdigest ?C) None ?log2"
    by blast
  with h1 h2 h3 h4 show ?thesis by simp
qed

text \<open>
  C2. When the request-upload-URL call returns an ApiResponse whose success flag is false
  (any false value), \<open>upload_large_file\<close> returns that same ApiResponse, and the run's
  events are the digest and that one request: no storage PUT, no completion call.
\<close>

theorem C2_abort_on_failed_url_request:
  assumes "get_large_upload_url net self application_id version file_name
             (int (length file_content)) ''application/octet-stream'' (log @ [Hashed file_content])
           = (Inr url_response, log1)"
      and "\<not> truthy (success url_response)"
  shows "upload_large_file net self application_id version file_name file_content release_notes log
           = (Inr url_response, log1) \<and>
         (\<exists>rq1. log1 = log @ [Hashed file_content, Sent rq1] \<and>
                is_upload_url_call self (int (length file_content)) rq1)"
  using assms by (intro upload_large_file_abort) simp_all

theorem C2_abort_on_failed_url_request_witness:
  "get_large_upload_url (demo_network upload_refused (storage_reply 200 [] [])) demo_client
       ''app'' ''1.0.0'' ''f.bin'' (int (length [1, 2, 3 :: byte])) ''application/octet-stream''
       ([] @ [Hashed [1, 2, 3]])
     = (Inr refused_result,
        [Hashed [1, 2, 3],
         Sent (demo_upload_url_request ''app'' ''1.0.0'' ''f.bin'' 3 ''application/octet-stream'')]) \<and>
   success refused_result = JBool False \<and>
   upload_large_file (demo_network upload_refused (storage_reply 200 [] [])) demo_client
       ''app'' ''1.0.0'' ''f.bin'' [1, 2, 3] None []
     = (Inr refused_result,
        [Hashed [1, 2, 3],
         Sent (demo_upload_url_request ''app'' ''1.0.0'' ''f.bin'' 3 ''application/octet-stream'')])"
proof -
  let ?net = "demo_network upload_refused (storage_reply 200 [] [])"
  let ?C = "[1, 2, 3] :: bytes"
  let ?log1 = "[Hashed ?C,
       Sent (demo_upload_url_request ''app'' ''1.0.0'' ''f.bin'' 3 ''application/octet-stream'')]"
  have h1: "get_large_upload_url ?net demo_client ''app'' ''1.0.0'' ''f.bin'' (int (length ?C))
       ''application/octet-stream'' ([] @ [Hashed ?C]) = (Inr refused_result, ?log1)"
    by (simp add: demo_get_large_upload_url from_response_upload_refused)
  have h2: "success refused_result = JBool False"
    by (simp add: refused_result_def)
  then have h3: "\<not> truthy (success refused_result)"
    by simp
  from C2_abort_on_failed_url_request [OF h1 h3, of None]
  have "upload_large_file ?net demo_client ''app'' ''1.0.0'' ''f.bin'' ?C None []
          = (Inr refused_result, ?log1)"
    by blast
  with h1 h2 show ?thesis by simp
qed

text \<open>
  C3. When the storage PUT answers with a status other than 200, \<open>upload_large_file\<close>
  returns the synthesized failure: success false, the storage status as status code, data
  and meta null, error \<open>{message: "S3 upload failed: " + <storage body>}\<close>, raw
  \<open>{error: <storage body>}\<close>; the run's events are the digest, the request-upload-URL
  call and the PUT: no completion call.
\<close>

theorem C3_storage_failure:
  assumes "get_large_upload_url net self application_id version file_name
             (int (length file_content)) ''application/octet-stream'' (log @ [Hashed file_content])
           = (Inr url_response, log1)"
      and "truthy (success url_response)"
      and "py_getitem (data url_response) ''uploadId'' = Inr upload_id"
      and "py_getitem (data url_response) ''uploadUrl'' = Inr upload_url"
      and "put_binary net self upload_url file_content ''application/octet-stream'' log1
           = (Inr s3_response, log2)"
      and "rs_status_code s3_response \<noteq> 200"
  shows "upload_large_file net self application_id version file_name file_content release_notes log
           = (Inr \<lparr>success = JBool False,
                   status_code = rs_status_code s3_response,
                   data = JNull,
                   error = JObj [(''message'', JStr (''S3 upload failed: '' @ rs_text s3_response))],
                   meta = JNull,
                   raw = JObj [(''error'', JStr (rs_text s3_response))]\<rparr>, log2) \<and>
         (\<exists>rq1 rq2. log2 = log @ [Hashed file_content, Sent rq1, Sent rq2] \<and>
                    is_upload_url_call self (int (length file_content)) rq1 \<and>
                    is_storage_put file_content rq2)"
proof
  show "upload_large_file net self application_id version file_name file_content release_notes log
           = (Inr \<lparr>success = JBool False,
                   status_code = rs_status_code s3_response,
                   data = JNull,
                   error = JObj [(''message'', JStr (''S3 upload failed: '' @ rs_text s3_response))],
                   meta = JNull,
                   raw = JObj [(''error'', JStr (rs_text s3_response))]\<rparr>, log2)"
    using assms by (rule upload_large_file_storage_failure)
  from get_large_upload_url_log [OF assms(1)] obtain rq1 where
    "log1 = log @ [Hashed file_content, Sent rq1]"
    "is_upload_url_call self (int (length file_content)) rq1"
    by auto
  moreover from put_binary_log [OF assms(5)] obtain rq2 where
    "log2 = log1 @ [Sent rq2]" "is_storage_put file_content rq2"
    by auto
  ultimately show "\<exists>rq1 rq2. log2 = log @ [Hashed file_content, Sent rq1, Sent rq2] \<and>
                    is_upload_url_call self (int (length file_content)) rq1 \<and>
                    is_storage_put file_content rq2"
    by auto
qed

theorem C3_storage_failure_witness:
  "put_binary (demo_network upload_granted (storage_reply 500 [] ''InternalError'')) demo_client
       (JStr ''https://s3.example/u-1'') [1, 2, 3] ''application/octet-stream''
       [Hashed [1, 2, 3],
        Sent (demo_upload_url_request ''app'' ''1.0.0'' ''f.bin'' 3 ''application/octet-stream'')]
     = (Inr (storage_reply 500 [] ''InternalError''),
        [Hashed [1, 2, 3],
         Sent (demo_upload_url_request ''app'' ''1.0.0'' ''f.bin'' 3 ''application/octet-stream''),
         Sent (demo_put_request (JStr ''https://s3.example/u-1'') [1, 2, 3]
                 ''application/octet-stream'')]) \<and>
   upload_large_file (demo_network upload_granted (storage_reply 500 [] ''InternalError''))
       demo_client ''app'' ''1.0.0'' ''f.bin'' [1, 2, 3] None []
     = (Inr \<lparr>success = JBool False, status_code = 500, data = JNull,
             error = JObj [(''message'', JStr ''S3 upload failed: InternalError'')],
             meta = JNull,
             raw = JObj [(''error'', JStr ''InternalError'')]\<rparr>,
        [Hashed [1, 2, 3],
         Sent (demo_upload_url_request ''app'' ''1.0.0'' ''f.bin'' 3 ''application/octet-stream''),
         Sent (demo_put_request (JStr ''https://s3.example/u-1'') [1, 2, 3]
                 ''application/octet-stream'')])"
proof -
  let ?st = "storage_reply 500 [] ''InternalError''"
  let ?net = "demo_network upload_granted ?st"
  let ?C = "[1, 2, 3] :: bytes"
  let ?log1 = "[Hashed ?C,
       Sent (demo_upload_url_request ''app'' ''1.0.0'' ''f.bin'' 3 ''application/octet-stream'')]"
  let ?log2 = "?log1 @ [Sent (demo_put_request (JStr ''https://s3.example/u-1'') ?C
                  ''application/octet-stream'')]"
  have h1: "get_large_upload_url ?net demo_client ''app'' ''1.0.0'' ''f.bin'' (int (length ?C))
       ''application/octet-stream'' ([] @ [Hashed ?C]) = (Inr granted_result, ?log1)"
    by (simp add: demo_get_large_upload_url from_response_upload_granted)
  have h2: "truthy (success granted_result)"
    by (simp add: granted_result_def)
  have h3: "py_getitem (data granted_result) ''uploadId'' = Inr (JStr ''u-1'')"
    by (simp add: granted_result_def)
  have h4: "py_getitem (data granted_result) ''uploadUrl'' = Inr (JStr ''https://s3.example/u-1'')"
    by (simp add: granted_result_def)
  have h5: "put_binary ?net demo_client (JStr ''https://s3.example/u-1'') ?C
       ''application/octet-stream'' ?log1 = (Inr ?st, ?log2)"
    by (simp add: demo_put_binary)
  have h6: "rs_status_code ?st \<noteq> 200"
    by (simp add: storage_reply_def)
  from C3_storage_failure [OF h1 h2 h3 h4 h5 h6, of None]
  have "upload_large_file ?net demo_client ''app'' ''1.0.0'' ''f.bin'' ?C None []
           = (Inr \<lparr>success = JBool False,
                   status_code = rs_status_code ?st,
                   data = JNull,
                   error = JObj [(''message'', JStr (''S3 upload failed: '' @ rs_text ?st))],
                   meta = JNull,
                   raw = JObj [(''error'', JStr (rs_text ?st))]\<rparr>, ?log2)"
    by blast
  with h5 show ?thesis by (simp add: storage_reply_def)
qed

text \<open>
  C9. When the request-upload-URL call returns an ApiResponse with a true success flag but
  no data (\<open>None\<close>), \<open>upload_large_file\<close> returns that same ApiResponse, and the run's
  events are the digest and that one request: no storage PUT, no completion call.
\<close>

theorem C9_abort_on_missing_data:
  assumes "get_large_upload_url net self application_id version file_name
             (int (length file_content)) ''application/octet-stream'' (log @ [Hashed file_content])
           = (Inr url_response, log1)"
      and "success url_response = JBool True"
      and "data url_response = JNull"
  shows "upload_large_file net self application_id version file_name file_content release_notes log
           = (Inr url_response, log1) \<and>
         (\<exists>rq1. log1 = log @ [Hashed file_content, Sent rq1] \<and>
                is_upload_url_call self (int (length file_content)) rq1)"
  using assms(1,3) by (intro upload_large_file_abort) simp_all

theorem C9_abort_on_missing_data_witness:
  "get_large_upload_url (demo_network upload_no_data (storage_reply 200 [] [])) demo_client
       ''app'' ''1.0.0'' ''f.bin'' (int (length [1, 2, 3 :: byte])) ''application/octet-stream''
       ([] @ [Hashed [1, 2, 3]])
     = (Inr no_data_result,
        [Hashed [1, 2, 3],
         Sent (demo_upload_url_request ''app'' ''1.0.0'' ''f.bin'' 3 ''application/octet-stream'')]) \<and>
   success no_data_result = JBool True \<and>
   data no_data_result = JNull \<and>
   upload_large_file (demo_network upload_no_data (storage_reply 200 [] [])) demo_client
       ''app'' ''1.0.0'' ''f.bin'' [1, 2, 3] None []
     = (Inr no_data_result,
        [Hashed [1, 2, 3],
         Sent (demo_upload_url_request ''app'' ''1.0.0'' ''f.bin'' 3 ''application/octet-stream'')])"
proof -
  let ?net = "demo_network upload_no_data (storage_reply 200 [] [])"
  let ?C = "[1, 2, 3] :: bytes"
  let ?log1 = "[Hashed ?C,
       Sent (demo_upload_url_request ''app'' ''1.0.0'' ''f.bin'' 3 ''application/octet-stream'')]"
  have h1: "get_large_upload_url ?net demo_client ''app'' ''1.0.0'' ''f.bin'' (int (length ?C))
       ''application/octet-stream'' ([] @ [Hashed ?C]) = (Inr no_data_result, ?log1)"
    by (simp add: demo_get_large_upload_url from_response_upload_no_data)
  have h2: "success no_data_result = JBool True"
    by (simp add: no_data_result_def)
  have h3: "data no_data_result = JNull"
    by (simp add: no_data_result_def)
  from C9_abort_on_missing_data [OF h1 h2 h3, of None]
  have "upload_large_file ?net demo_client ''app'' ''1.0.0'' ''f.bin'' ?C None []
          = (Inr no_data_result, ?log1)"
    by blast
  with h1 h2 h3 show ?thesis by simp
qed


section \<open>The verified download\<close>

lemma py_getitem_Inr:
  "py_getitem d k = Inr v \<Longrightarrow> \<exists>kvs. d = JObj kvs \<and> map_of kvs k = Some v"
  by (cases d) (auto split: option.splits)

lemma py_get_dict_get:
  "py_getitem d k = Inr v \<Longrightarrow> py_get d k' JNull = Inr (dict_get d k')"
  by (cases d) (auto simp: dict_get_def split: option.splits)

lemma get_download_url_log:
  assumes "get_download_url net self application_id version file_id test_channel log = (r, log1)"
  shows "\<exists>rq. log1 = log @ [Sent rq] \<and> is_download_url_call self rq"
  using arg_cong [OF assms, of snd]
  by (auto simp add: get_download_url_def get_def snd_session_request Let_def
        is_download_url_call_def)

lemma download_unfold:
  "download net self url log =
     (case net log \<lparr>rq_session = None, rq_method = ''GET'', rq_url = url, rq_params = JNull,
                     rq_json = JNull, rq_data = None, rq_headers = None\<rparr> of
        Inl e \<Rightarrow> Inl e
      | Inr response \<Rightarrow>
          if 400 \<le> rs_status_code response \<and> rs_status_code response < 600
          then Inl (HTTPError (rs_status_code response))
          else Inr (rs_content response),
      log @ [Sent \<lparr>rq_session = None, rq_method = ''GET'', rq_url = url, rq_params = JNull,
                   rq_json = JNull, rq_data = None, rq_headers = None\<rparr>])"
  by (simp add: download_def send_def raise_for_status_def split: sum.splits)

lemma download_log:
  assumes "download net self url log = (r, log1)"
  shows "\<exists>rq. log1 = log @ [Sent rq] \<and> is_storage_get url rq"
  using assms by (auto simp add: download_unfold is_storage_get_def)

lemma download_file_refused:
  assumes "get_download_url net self application_id version file_id test_channel log
             = (Inr url_response, log1)"
      and "\<not> truthy (success url_response) \<or> data url_response = JNull"
  shows "download_file net self application_id version file_id test_channel verify_checksum log
           = (Inl (PyException [Lit ''Failed to get download URL: '', Fmt (error url_response)]),
              log1)"
  using assms by (auto simp add: download_file_def)

lemma download_file_fetched:
  assumes "get_download_url net self application_id version file_id test_channel log
             = (Inr url_response, log1)"
      and "truthy (success url_response)"
      and "py_getitem (data url_response) ''url'' = Inr download_url"
      and "download net self download_url log1 = (fetched, log2)"
  shows "download_file net self application_id version file_id test_channel verify_checksum log =
           (case fetched of
              Inl e \<Rightarrow> (Inl e, log2)
            | Inr content \<Rightarrow>
                if verify_checksum \<and> truthy (dict_get (data url_response) ''checksum'')
                then
                  (if JStr (sha256_hexdigest content) \<noteq> dict_get (data url_response) ''checksum''
                   then Inl (ValueError [Lit ''Checksum mismatch: expected '',
                                         Fmt (dict_get (data url_response) ''checksum''),
                                         Lit '', got '',
                                         Fmt (JStr (sha256_hexdigest content))])
                   else Inr (content, file_metadata (data url_response)),
                   log2 @ [Hashed content])
                else (Inr (content, file_metadata (data url_response)), log2))"
proof -
  from assms(3) have nn: "data url_response \<noteq> JNull" by auto
  note g = py_get_dict_get [OF assms(3)]
  show ?thesis
    using assms(1,2,4) nn
    by (simp add: download_file_def assms(3) g Let_def hashlib_sha256_hexdigest_def
          file_metadata_def split: sum.splits)
qed

lemma length_hex_word: "length (hex_word w) = 8"
  by (simp add: hex_word_def)

lemma length_sha256_hexdigest: "length (sha256_hexdigest m) = 64"
  by (simp add: sha256_hexdigest_def length_hex_word split: prod.splits)

lemma sha256_hexdigest_neq:
  "length s \<noteq> 64 \<Longrightarrow> sha256_hexdigest m \<noteq> s"
  using length_sha256_hexdigest [of m] by auto

subsection \<open>The example network, evaluated\<close>

lemma demo_get_download_url:
  "get_download_url (demo_network envelope storage) demo_client application_id version
       None False log =
     (from_response (json_reply envelope),
      log @ [Sent (demo_download_url_request application_id version)])"
  by (simp add: get_download_url_def get_def session_request_def send_def demo_network_def
        demo_private_url demo_download_url_request_def)

lemma demo_download:
  "download (demo_network envelope (storage_reply code content text)) demo_client url log =
     (if 400 \<le> code \<and> code < 600 then Inl (HTTPError code) else Inr content,
      log @ [Sent (demo_storage_get url)])"
  by (simp add: download_unfold demo_network_def storage_reply_def demo_storage_get_def)

lemma from_response_download_granted:
  "from_response (json_reply (download_granted extra)) = Inr (download_result extra)"
  by (simp add: from_response_def json_reply_def download_granted_def download_result_def)


subsection \<open>Claims on the download\<close>

text \<open>
  C4, as amended. Take a run in which the get-download-URL call returns an ApiResponse
  whose data is either missing or a mapping with a \<open>url\<close> entry. Then \<open>download_file\<close>
  raises if and only if (a) the ApiResponse is unsuccessful or its data is missing, and
  the exception carries the envelope's error; or (c) the storage GET fails, the library
  raising or the storage answering with a 4xx or 5xx status, and that exception is
  propagated as it is; or (b) \<open>verify_checksum\<close> is true, the supplied checksum is a
  true value (not null, not empty) and differs from the SHA-256 hex digest of the
  downloaded bytes, and the exception carries both. When the checksum is missing (or any
  false value) and the storage GET succeeds, \<open>download_file\<close> returns the bytes and the
  metadata, also with \<open>verify_checksum\<close> true.
\<close>

theorem C4_download_raises_iff:
  assumes "get_download_url net self application_id version file_id test_channel log
             = (Inr url_response, log1)"
      and "data url_response = JNull \<or>
           py_getitem (data url_response) ''url'' = Inr download_url"
      and "download net self download_url log1 = (fetched, log2)"
  shows
    "(isl (fst (download_file net self application_id version file_id test_channel
                  verify_checksum log)) \<longleftrightarrow>
        (\<not> truthy (success url_response) \<or> data url_response = JNull) \<or>
        isl fetched \<or>
        (verify_checksum \<and> truthy (dict_get (data url_response) ''checksum'') \<and>
         (\<exists>content. fetched = Inr content \<and>
            JStr (sha256_hexdigest content) \<noteq> dict_get (data url_response) ''checksum''))) \<and>
     (\<not> truthy (success url_response) \<or> data url_response = JNull \<longrightarrow>
        download_file net self application_id version file_id test_channel verify_checksum log
          = (Inl (PyException [Lit ''Failed to get download URL: '', Fmt (error url_response)]),
             log1)) \<and>
     (isl fetched \<longleftrightarrow>
        (case net log1 \<lparr>rq_session = None, rq_method = ''GET'', rq_url = download_url,
                         rq_params = JNull, rq_json = JNull, rq_data = None,
                         rq_headers = None\<rparr> of
           Inl e \<Rightarrow> True
         | Inr response \<Rightarrow> 400 \<le> rs_status_code response \<and> rs_status_code response < 600)) \<and>
     (\<forall>e. truthy (success url_response) \<and> data url_response \<noteq> JNull \<and> fetched = Inl e \<longrightarrow>
        download_file net self application_id version file_id test_channel verify_checksum log
          = (Inl e, log2)) \<and>
     (\<forall>content.
        truthy (success url_response) \<and> data url_response \<noteq> JNull \<and> fetched = Inr content \<and>
        verify_checksum \<and> truthy (dict_get (data url_response) ''checksum'') \<and>
        JStr (sha256_hexdigest content) \<noteq> dict_get (data url_response) ''checksum'' \<longrightarrow>
        fst (download_file net self application_id version file_id test_channel
               verify_checksum log)
          = Inl (ValueError [Lit ''Checksum mismatch: expected '',
                             Fmt (dict_get (data url_response) ''checksum''),
                             Lit '', got '',
                             Fmt (JStr (sha256_hexdigest content))])) \<and>
     (\<forall>content.
        truthy (success url_response) \<and> data url_response \<noteq> JNull \<and> fetched = Inr content \<and>
        \<not> truthy (dict_get (data url_response) ''checksum'') \<longrightarrow>
        download_file net self application_id version file_id test_channel verify_checksum log
          = (Inr (content, file_metadata (data url_response)), log2))"
proof (cases "\<not> truthy (success url_response) \<or> data url_response = JNull")
  case True
  have f: "isl fetched \<longleftrightarrow>
        (case net log1 \<lparr>rq_session = None, rq_method = ''GET'', rq_url = download_url,
                         rq_params = JNull, rq_json = JNull, rq_data = None,
                         rq_headers = None\<rparr> of
           Inl e \<Rightarrow> True
         | Inr response \<Rightarrow> 400 \<le> rs_status_code response \<and> rs_status_code response < 600)"
    using assms(3) by (auto simp: download_unfold split: sum.splits if_splits)
  from download_file_refused [OF assms(1) True, of verify_checksum] f True
  show ?thesis by auto
next
  case False
  then have ok: "truthy (success url_response)" and nn: "data url_response \<noteq> JNull"
    by auto
  with assms(2) have u: "py_getitem (data url_response) ''url'' = Inr download_url"
    by simp
  have f: "isl fetched \<longleftrightarrow>
        (case net log1 \<lparr>rq_session = None, rq_method = ''GET'', rq_url = download_url,
                         rq_params = JNull, rq_json = JNull, rq_data = None,
                         rq_headers = None\<rparr> of
           Inl e \<Rightarrow> True
         | Inr response \<Rightarrow> 400 \<le> rs_status_code response \<and> rs_status_code response < 600)"
    using assms(3) by (auto simp: download_unfold split: sum.splits if_splits)
  note run = download_file_fetched [OF assms(1) ok u assms(3), of verify_checksum]
  show ?thesis
  proof (cases fetched)
    case (Inl e)
    with run ok nn f show ?thesis by simp
  next
    case (Inr content)
    show ?thesis
    proof (cases "verify_checksum \<and> truthy (dict_get (data url_response) ''checksum'')")
      case False
      with run Inr ok nn f show ?thesis by auto
    next
      case True
      show ?thesis
      proof (cases "JStr (sha256_hexdigest content) = dict_get (data url_response) ''checksum''")
        case same: True
        with True run Inr ok nn f show ?thesis by auto
      next
        case differ: False
        with True run Inr ok nn f show ?thesis by auto
      qed
    qed
  qed
qed

theorem C4_download_raises_iff_witness:
  "get_download_url
       (demo_network (download_granted [(''checksum'', JStr ''00'')]) (storage_reply 200 [9] []))
       demo_client ''app'' ''1.0.0'' None False []
     = (Inr (download_result [(''checksum'', JStr ''00'')]),
        [Sent (demo_download_url_request ''app'' ''1.0.0'')]) \<and>
   py_getitem (data (download_result [(''checksum'', JStr ''00'')])) ''url''
     = Inr (JStr ''https://s3.example/f'') \<and>
   download
       (demo_network (download_granted [(''checksum'', JStr ''00'')]) (storage_reply 200 [9] []))
       demo_client (JStr ''https://s3.example/f'') [Sent (demo_download_url_request ''app'' ''1.0.0'')]
     = (Inr [9],
        [Sent (demo_download_url_request ''app'' ''1.0.0''),
         Sent (demo_storage_get (JStr ''https://s3.example/f''))]) \<and>
   fst (download_file
          (demo_network (download_granted [(''checksum'', JStr ''00'')]) (storage_reply 200 [9] []))
          demo_client ''app'' ''1.0.0'' None False True [])
     = Inl (ValueError [Lit ''Checksum mismatch: expected '', Fmt (JStr ''00''),
                        Lit '', got '', Fmt (JStr (sha256_hexdigest [9]))])"
proof -
  let ?extra = "[(''checksum'', JStr ''00'')]"
  let ?net = "demo_network (download_granted ?extra) (storage_reply 200 [9] [])"
  let ?r = "download_result ?extra"
  let ?u = "JStr ''https://s3.example/f''"
  let ?log1 = "[Sent (demo_download_url_request ''app'' ''1.0.0'')]"
  let ?log2 = "[Sent (demo_download_url_request ''app'' ''1.0.0''), Sent (demo_storage_get ?u)]"
  have h1: "get_download_url ?net demo_client ''app'' ''1.0.0'' None False [] = (Inr ?r, ?log1)"
    by (simp add: demo_get_download_url from_response_download_granted)
  have h2: "py_getitem (data ?r) ''url'' = Inr ?u"
    by (simp add: download_result_def)
  have h3: "download ?net demo_client ?u ?log1 = (Inr [9], ?log2)"
    by (simp add: demo_download)
  have ok: "truthy (success ?r)" and nn: "data ?r \<noteq> JNull"
    by (simp_all add: download_result_def)
  have ck: "dict_get (data ?r) ''checksum'' = JStr ''00''"
    by (simp add: download_result_def dict_get_def)
  have ne: "JStr (sha256_hexdigest [9]) \<noteq> dict_get (data ?r) ''checksum''"
    by (simp add: ck sha256_hexdigest_neq)
  from C4_download_raises_iff [OF h1 disjI2 [OF h2] h3, of True] ok nn ne ck
  have "fst (download_file ?net demo_client ''app'' ''1.0.0'' None False True [])
          = Inl (ValueError [Lit ''Checksum mismatch: expected '',
                             Fmt (dict_get (data ?r) ''checksum''),
                             Lit '', got '',
                             Fmt (JStr (sha256_hexdigest [9]))])"
    by simp
  with h1 h2 h3 ck show ?thesis by simp
qed

text \<open>
  C4 as the claim words it fails in its "only if" half: here the download-URL ApiResponse
  is successful and has data, the server supplied no checksum, and \<open>download_file\<close>
  raises all the same, the \<open>HTTPError\<close> of the storage GET that answered 404.
\<close>

theorem C4_storage_error_counterexample:
  "fst (get_download_url (demo_network (download_granted []) (storage_reply 404 [] ''NoSuchKey''))
          demo_client ''app'' ''1.0.0'' None False [])
     = Inr (download_result []) \<and>
   truthy (success (download_result [])) \<and>
   data (download_result []) \<noteq> JNull \<and>
   py_get (data (download_result [])) ''checksum'' JNull = Inr JNull \<and>
   fst (download_file (demo_network (download_granted []) (storage_reply 404 [] ''NoSuchKey''))
          demo_client ''app'' ''1.0.0'' None False True [])
     = Inl (HTTPError 404)"
proof -
  let ?net = "demo_network (download_granted []) (storage_reply 404 [] ''NoSuchKey'')"
  let ?r = "download_result []"
  let ?u = "JStr ''https://s3.example/f''"
  have h1: "get_download_url ?net demo_client ''app'' ''1.0.0'' None False []
              = (Inr ?r, [Sent (demo_download_url_request ''app'' ''1.0.0'')])"
    by (simp add: demo_get_download_url from_response_download_granted)
  have h2: "py_getitem (data ?r) ''url'' = Inr ?u"
    by (simp add: download_result_def)
  have h3: "download ?net demo_client ?u [Sent (demo_download_url_request ''app'' ''1.0.0'')]
              = (Inl (HTTPError 404),
                 [Sent (demo_download_url_request ''app'' ''1.0.0''), Sent (demo_storage_get ?u)])"
    by (simp add: demo_download)
  have ok: "truthy (success ?r)"
    by (simp add: download_result_def)
  have "fst (download_file ?net demo_client ''app'' ''1.0.0'' None False True [])
          = Inl (HTTPError 404)"
    by (simp add: download_file_fetched [OF h1 ok h2 h3])
  with h1 ok show ?thesis by (simp add: download_result_def)
qed

text \<open>
  C10. With \<open>verify_checksum\<close> true and a download-URL response whose \<open>checksum\<close> is
  the empty string, \<open>download_file\<close> skips the verification (no digest is computed) and
  returns the bytes and the metadata, although the empty string is never the SHA-256 hex
  digest of the bytes.
\<close>

theorem C10_empty_checksum_skips_verification:
  assumes "get_download_url net self application_id version file_id test_channel log
             = (Inr url_response, log1)"
      and "truthy (success url_response)"
      and "py_getitem (data url_response) ''url'' = Inr download_url"
      and "py_get (data url_response) ''checksum'' JNull = Inr (JStr '''')"
      and "download net self download_url log1 = (Inr content, log2)"
  shows "download_file net self application_id version file_id test_channel True log
           = (Inr (content, file_metadata (data url_response)), log2) \<and>
         py_getitem (file_metadata (data url_response)) ''checksum'' = Inr (JStr '''') \<and>
         sha256_hexdigest content \<noteq> '''' \<and>
         (\<exists>rq1 rq2. log2 = log @ [Sent rq1, Sent rq2] \<and>
                    is_download_url_call self rq1 \<and> is_storage_get download_url rq2)"
proof -
  from assms(4) py_get_dict_get [OF assms(3), of "''checksum''"]
  have ck: "dict_get (data url_response) ''checksum'' = JStr ''''"
    by simp
  from download_file_fetched [OF assms(1,2,3,5), of True] ck
  have run: "download_file net self application_id version file_id test_channel True log
           = (Inr (content, file_metadata (data url_response)), log2)"
    by simp
  have md: "py_getitem (file_metadata (data url_response)) ''checksum'' = Inr (JStr '''')"
    by (simp add: file_metadata_def ck)
  have ne: "sha256_hexdigest content \<noteq> ''''"
    by (rule sha256_hexdigest_neq) simp
  from get_download_url_log [OF assms(1)] obtain rq1 where
    "log1 = log @ [Sent rq1]" "is_download_url_call self rq1"
    by auto
  moreover from download_log [OF assms(5)] obtain rq2 where
    "log2 = log1 @ [Sent rq2]" "is_storage_get download_url rq2"
    by auto
  ultimately have "\<exists>rq1 rq2. log2 = log @ [Sent rq1, Sent rq2] \<and>
                    is_download_url_call self rq1 \<and> is_storage_get download_url rq2"
    by auto
  with run md ne show ?thesis by blast
qed

theorem C10_empty_checksum_skips_verification_witness:
  "get_download_url
       (demo_network (download_granted [(''checksum'', JStr '''')]) (storage_reply 200 [9] []))
       demo_client ''app'' ''1.0.0'' None False []
     = (Inr (download_result [(''checksum'', JStr '''')]),
        [Sent (demo_download_url_request ''app'' ''1.0.0'')]) \<and>
   truthy (success (download_result [(''checksum'', JStr '''')])) \<and>
   py_getitem (data (download_result [(''checksum'', JStr '''')])) ''url''
     = Inr (JStr ''https://s3.example/f'') \<and>
   py_get (data (download_result [(''checksum'', JStr '''')])) ''checksum'' JNull
     = Inr (JStr '''') \<and>
   download_file
       (demo_network (download_granted [(''checksum'', JStr '''')]) (storage_reply 200 [9] []))
       demo_client ''app'' ''1.0.0'' None False True []
     = (Inr ([9], JObj [(''fileName'', JStr ''f.bin''), (''fileSize'', JNull),
                        (''checksum'', JStr ''''), (''expiresAt'', JNull)]),
        [Sent (demo_download_url_request ''app'' ''1.0.0''),
         Sent (demo_storage_get (JStr ''https://s3.example/f''))])"
proof -
  let ?extra = "[(''checksum'', JStr '''')]"
  let ?net = "demo_network (download_granted ?extra) (storage_reply 200 [9] [])"
  let ?r = "download_result ?extra"
  let ?u = "JStr ''https://s3.example/f''"
  let ?log1 = "[Sent (demo_download_url_request ''app'' ''1.0.0'')]"
  let ?log2 = "[Sent (demo_download_url_request ''app'' ''1.0.0''), Sent (demo_storage_get ?u)]"
  have h1: "get_download_url ?net demo_client ''app'' ''1.0.0'' None False [] = (Inr ?r, ?log1)"
    by (simp add: demo_get_download_url from_response_download_granted)
  have h2: "truthy (success ?r)"
    by (simp add: download_result_def)
  have h3: "py_getitem (data ?r) ''url'' = Inr ?u"
    by (simp add: download_result_def)
  have h4: "py_get (data ?r) ''checksum'' JNull = Inr (JStr '''')"
    by (simp add: download_result_def)
  have h5: "download ?net demo_client ?u ?log1 = (Inr [9], ?log2)"
    by (simp add: demo_download)
  have md: "file_metadata (data ?r) =
              JObj [(''fileName'', JStr ''f.bin''), (''fileSize'', JNull),
                    (''checksum'', JStr ''''), (''expiresAt'', JNull)]"
    by (simp add: file_metadata_def dict_get_def download_result_def)
  from C10_empty_checksum_skips_verification [OF h1 h2 h3 h4 h5]
  have "download_file ?net demo_client ''app'' ''1.0.0'' None False True []
          = (Inr ([9], file_metadata (data ?r)), ?log2)"
    by blast
  with h1 h2 h3 h4 md show ?thesis by simp
qed


section \<open>Who carries the bearer token\<close>















section \<open>A test vector for the digest\<close>

text \<open>The digest of the empty message, as \<open>hashlib\<close> (and FIPS 180-4) gives it.\<close>

lemma sha256_hexdigest_empty:
  "sha256_hexdigest [] = ''e3b0c44298fc1c149afbf4c8996fb92427ae41e4649b934ca495991b7852b855''"
  by code_simp


end
